theory Spec2Isabelle
  imports Main "HOL-Library.AList"
begin

section \<open>Exceptions and the type-erased value\<close>

text \<open>
  Every \<^verbatim>\<open>throw\<close> of the sources becomes a value. The code throws
  \<^verbatim>\<open>std::invalid_argument\<close> with a message, \<^verbatim>\<open>std::any_cast\<close> throws
  \<^verbatim>\<open>std::bad_any_cast\<close>, and \<^verbatim>\<open>std::unordered_map::at\<close> (used by the handler the
  parameter checks are compiled against) throws \<^verbatim>\<open>std::out_of_range\<close>.
\<close>

datatype exn = invalid_argument string | bad_any_cast | out_of_range

text \<open>
  \<^verbatim>\<open>std::any\<close> as seen from a call site that knows the type \<open>T\<close>: the box is empty,
  holds a \<open>T\<close>, or holds a value of some other type (\<open>'o\<close> stands for the sum of all other
  types). \<^verbatim>\<open>std::make_any<T>(v)\<close> builds the second form; \<^verbatim>\<open>std::any_cast<T>\<close> succeeds on
  it alone.
\<close>

datatype ('t, 'o) any = no_value | holds 't | holds_other 'o

definition make_any :: "'t \<Rightarrow> ('t, 'o) any" where
  "make_any v = holds v"

fun any_cast :: "('t, 'o) any \<Rightarrow> exn + 't" where
  "any_cast (holds v) = Inr v"
| "any_cast no_value = Inl bad_any_cast"
| "any_cast (holds_other x) = Inl bad_any_cast"

section \<open>query\_map.h: the multi-key store\<close>

subsection \<open>Keys and their text\<close>

text \<open>
  A key is a \<^verbatim>\<open>std::string\<close> or an \<^verbatim>\<open>int\<close> (the test instantiates
  \<^verbatim>\<open>query_map<std::tuple<int, std::string>, std::unordered_map>\<close>, the header ends with the
  alias \<^verbatim>\<open>double_query_map\<close> over two strings). The lambda \<^verbatim>\<open>str\<close> of
  \<^verbatim>\<open>get_list_first\<close> and \<^verbatim>\<open>get_list_impl\<close> returns a string key as it is and calls
  \<^verbatim>\<open>std::to_string\<close> on any other key; for an \<^verbatim>\<open>int\<close> that is its decimal
  representation.
\<close>

datatype key = key_string string | key_int int

fun digits :: "nat \<Rightarrow> string" where
  "digits n =
     (if n < 10 then [''0123456789'' ! n]
      else digits (n div 10) @ [''0123456789'' ! (n mod 10)])"

declare digits.simps [simp del]

definition to_string :: "int \<Rightarrow> string" where
  "to_string i = (if i < 0 then CHR ''-'' # digits (nat (- i)) else digits (nat i))"

fun str :: "key \<Rightarrow> string" where
  "str (key_string s) = s"
| "str (key_int i) = to_string i"

text \<open>The exception both lookup helpers throw for an absent key.\<close>

definition key_not_found :: "key \<Rightarrow> exn" where
  "key_not_found k = invalid_argument (''key '' @ str k @ '' not found'')"

subsection \<open>The object: nested maps and the list of queries\<close>

text \<open>
  \<^verbatim>\<open>m_data\<close> is \<^verbatim>\<open>Map<K0, Map<K1, ... Map<Kn, TypeErasure>>>\<close>, built by the recursive
  template \<^verbatim>\<open>query_map_data\<close>. A \<^verbatim>\<open>std::unordered_map\<close> that is only searched and
  subscripted is a partial function. The type of the nested map is a parameter of the
  record, as it is a parameter of the template; the instances for one and two keys are
  named below. \<^verbatim>\<open>m_queries\<close> is the vector of pairs (callback, key tuple).
\<close>

record ('m, 'q) query_map =
  m_data :: 'm
  m_queries :: "'q list"

type_synonym 'te map1 = "key \<rightharpoonup> 'te"
type_synonym 'te map2 = "key \<rightharpoonup> (key \<rightharpoonup> 'te)"

text \<open>
  A callback is a \<^verbatim>\<open>std::function<void(TypeErasure &)>\<close>. It may assign to the referenced
  value, it may change what it captured by reference (the world \<open>'w\<close>), and it may throw.
\<close>

type_synonym ('te, 'w) query_fun_sig = "'te \<Rightarrow> 'w \<Rightarrow> exn option \<times> 'te \<times> 'w"

type_synonym ('te, 'w) query_map1 = "('te map1, ('te, 'w) query_fun_sig \<times> key) query_map"
type_synonym ('te, 'w) query_map2 = "('te map2, ('te, 'w) query_fun_sig \<times> key \<times> key) query_map"

definition empty1 :: "('te, 'w) query_map1" where
  "empty1 = \<lparr>m_data = Map.empty, m_queries = []\<rparr>"

definition empty2 :: "('te, 'w) query_map2" where
  "empty2 = \<lparr>m_data = Map.empty, m_queries = []\<rparr>"

subsection \<open>set\<close>

text \<open>
  The base case \<^verbatim>\<open>set_imp(map, data, func, last)\<close> is \<^verbatim>\<open>map[last] = func(data)\<close>. The
  recursive case is \<^verbatim>\<open>set_imp(map[first], data, func, keys...)\<close>: \<^verbatim>\<open>map[first]\<close>
  default-constructs the nested map when \<^verbatim>\<open>first\<close> is absent, and the recursive call
  works on that entry in place. The recursion is over the template's key pack, so its
  continuation is an argument here: \<open>dflt\<close> is the default-constructed entry and
  \<open>rest\<close> the call on the remaining keys.
\<close>

definition set_imp_last :: "(key \<rightharpoonup> 'te) \<Rightarrow> 'd \<Rightarrow> ('d \<Rightarrow> 'te) \<Rightarrow> key \<Rightarrow> (key \<rightharpoonup> 'te)" where
  "set_imp_last mp data func last_key = mp(last_key \<mapsto> func data)"

definition set_imp :: "(key \<rightharpoonup> 'm) \<Rightarrow> 'm \<Rightarrow> ('m \<Rightarrow> 'm) \<Rightarrow> key \<Rightarrow> (key \<rightharpoonup> 'm)" where
  "set_imp mp dflt rest first =
     mp(first \<mapsto> rest (case mp first of None \<Rightarrow> dflt | Some sub \<Rightarrow> sub))"

text \<open>
  \<^verbatim>\<open>void set(T &data, Func &&func, Keys &&...keys)\<close>: the result is the pair of the
  returned value, of type \<open>unit\<close> for \<^verbatim>\<open>void\<close>, and the object after the call. Nothing
  in \<^verbatim>\<open>set\<close> or \<^verbatim>\<open>set_imp\<close> throws, so there is no error branch.
\<close>

definition set1 ::
  "('te map1, 'q) query_map \<Rightarrow> 'd \<Rightarrow> ('d \<Rightarrow> 'te) \<Rightarrow> key \<Rightarrow> unit \<times> ('te map1, 'q) query_map" where
  "set1 qm data func k0 = ((), qm\<lparr>m_data := set_imp_last (m_data qm) data func k0\<rparr>)"

definition set2 ::
  "('te map2, 'q) query_map \<Rightarrow> 'd \<Rightarrow> ('d \<Rightarrow> 'te) \<Rightarrow> key \<Rightarrow> key
     \<Rightarrow> unit \<times> ('te map2, 'q) query_map" where
  "set2 qm data func k0 k1 =
     ((), qm\<lparr>m_data :=
        set_imp (m_data qm) Map.empty (\<lambda>sub. set_imp_last sub data func k1) k0\<rparr>)"

subsection \<open>get\<close>

text \<open>
  \<^verbatim>\<open>get_list_first\<close> looks the first key of the tuple up in \<^verbatim>\<open>m_data\<close>, throws when
  it is absent and otherwise hands \<^verbatim>\<open>m_data[key]\<close> to \<^verbatim>\<open>get_list_impl\<close> with the
  remaining indices. \<^verbatim>\<open>get_list_impl\<close> has two overloads only: for exactly one
  remaining index (look the key up, throw or return \<^verbatim>\<open>map[key]\<close>) and for none (return
  the argument). So \<^verbatim>\<open>get\<close> and \<^verbatim>\<open>final_queries\<close> instantiate for tuples of one or
  two keys; for three or more keys no overload matches and the call does not compile.
  The continuation \<open>rest\<close> is the overload chosen for the remaining indices.
\<close>

definition get_list_impl_none :: "'m \<Rightarrow> exn + 'm" where
  "get_list_impl_none mp = Inr mp"

definition get_list_impl_last :: "(key \<rightharpoonup> 'te) \<Rightarrow> key \<Rightarrow> exn + 'te" where
  "get_list_impl_last mp key =
     (case mp key of None \<Rightarrow> Inl (key_not_found key) | Some v \<Rightarrow> Inr v)"

definition get_list_first :: "(key \<rightharpoonup> 'm) \<Rightarrow> key \<Rightarrow> ('m \<Rightarrow> exn + 'r) \<Rightarrow> exn + 'r" where
  "get_list_first data key rest =
     (case data key of None \<Rightarrow> Inl (key_not_found key) | Some sub \<Rightarrow> rest sub)"

definition get_list_first1 :: "'te map1 \<Rightarrow> key \<Rightarrow> exn + 'te" where
  "get_list_first1 data k0 = get_list_first data k0 get_list_impl_none"

fun get_list_first2 :: "'te map2 \<Rightarrow> key \<times> key \<Rightarrow> exn + 'te" where
  "get_list_first2 data (k0, k1) = get_list_first data k0 (\<lambda>sub. get_list_impl_last sub k1)"

definition get1 :: "('te map1, 'q) query_map \<Rightarrow> key \<Rightarrow> exn + 'te" where
  "get1 qm k0 = get_list_first1 (m_data qm) k0"

definition get2 :: "('te map2, 'q) query_map \<Rightarrow> key \<Rightarrow> key \<Rightarrow> exn + 'te" where
  "get2 qm k0 k1 = get_list_first2 (m_data qm) (k0, k1)"

text \<open>
  The caller's \<^verbatim>\<open>std::any_cast<T&>(qmap.get(...))\<close>: the exception of \<^verbatim>\<open>get\<close>
  propagates, otherwise the cast decides.
\<close>

definition cast_result :: "exn + ('t, 'o) any \<Rightarrow> exn + 't" where
  "cast_result r = (case r of Inl e \<Rightarrow> Inl e | Inr a \<Rightarrow> any_cast a)"

text \<open>
  The position (counted from 0) and the key of the first segment of a path that is
  absent, in the words of the specification; \<open>None\<close> when the whole path is bound.
\<close>

definition first_absent1 :: "'te map1 \<Rightarrow> key \<Rightarrow> (nat \<times> key) option" where
  "first_absent1 data k0 = (case data k0 of None \<Rightarrow> Some (0, k0) | Some v \<Rightarrow> None)"

definition first_absent2 :: "'te map2 \<Rightarrow> key \<Rightarrow> key \<Rightarrow> (nat \<times> key) option" where
  "first_absent2 data k0 k1 =
     (case data k0 of
        None \<Rightarrow> Some (0, k0)
      | Some sub \<Rightarrow> (case sub k1 of None \<Rightarrow> Some (1, k1) | Some v \<Rightarrow> None))"

subsection \<open>query and final\_queries\<close>

text \<open>
  \<^verbatim>\<open>query\<close> appends the pair (callback, key tuple) to \<^verbatim>\<open>m_queries\<close> and looks
  nothing up.
\<close>

definition query1 ::
  "('m, 'f \<times> key) query_map \<Rightarrow> 'f \<Rightarrow> key \<Rightarrow> unit \<times> ('m, 'f \<times> key) query_map" where
  "query1 qm func k0 = ((), qm\<lparr>m_queries := m_queries qm @ [(func, k0)]\<rparr>)"

definition query2 ::
  "('m, 'f \<times> key \<times> key) query_map \<Rightarrow> 'f \<Rightarrow> key \<Rightarrow> key
     \<Rightarrow> unit \<times> ('m, 'f \<times> key \<times> key) query_map" where
  "query2 qm func k0 k1 = ((), qm\<lparr>m_queries := m_queries qm @ [(func, (k0, k1))]\<rparr>)"

text \<open>
  The callback receives a reference into the nested map, so what it assigns to its
  argument is stored at the path the reference was resolved from.
\<close>

definition assign1 :: "'te map1 \<Rightarrow> key \<Rightarrow> 'te \<Rightarrow> 'te map1" where
  "assign1 data k0 v = data(k0 \<mapsto> v)"

fun assign2 :: "'te map2 \<Rightarrow> key \<times> key \<Rightarrow> 'te \<Rightarrow> 'te map2" where
  "assign2 data (k0, k1) v =
     (case data k0 of None \<Rightarrow> data | Some sub \<Rightarrow> data(k0 \<mapsto> sub(k1 \<mapsto> v)))"

text \<open>
  The loop of \<^verbatim>\<open>final_queries\<close>,
  \<^verbatim>\<open>for (auto &[func, id] : m_queries) func(get_list_first(id, index_sequence{}));\<close>
  with the instance of \<^verbatim>\<open>get_list_first\<close> and the assignment through its reference as
  arguments. An exception of \<^verbatim>\<open>get_list_first\<close> or of the callback leaves the loop; the
  map and the world are then as the iterations before left them.
\<close>

fun run_queries ::
  "('m \<Rightarrow> 'ks \<Rightarrow> exn + 'te) \<Rightarrow> ('m \<Rightarrow> 'ks \<Rightarrow> 'te \<Rightarrow> 'm) \<Rightarrow> (('te, 'w) query_fun_sig \<times> 'ks) list
     \<Rightarrow> 'm \<Rightarrow> 'w \<Rightarrow> exn option \<times> 'm \<times> 'w" where
  "run_queries resolve assign [] data w = (None, data, w)"
| "run_queries resolve assign ((func, ks) # qs) data w =
     (case resolve data ks of
        Inl e \<Rightarrow> (Some e, data, w)
      | Inr v \<Rightarrow>
          (case func v w of
             (Some e, v', w') \<Rightarrow> (Some e, assign data ks v', w')
           | (None, v', w') \<Rightarrow> run_queries resolve assign qs (assign data ks v') w'))"

definition final_queries1 ::
  "('te, 'w) query_map1 \<Rightarrow> 'w \<Rightarrow> exn option \<times> ('te, 'w) query_map1 \<times> 'w" where
  "final_queries1 qm w =
     (case run_queries get_list_first1 assign1 (m_queries qm) (m_data qm) w of
        (r, data, w') \<Rightarrow> (r, qm\<lparr>m_data := data\<rparr>, w'))"

definition final_queries2 ::
  "('te, 'w) query_map2 \<Rightarrow> 'w \<Rightarrow> exn option \<times> ('te, 'w) query_map2 \<times> 'w" where
  "final_queries2 qm w =
     (case run_queries get_list_first2 assign2 (m_queries qm) (m_data qm) w of
        (r, data, w') \<Rightarrow> (r, qm\<lparr>m_data := data\<rparr>, w'))"

section \<open>input\_parameter\_controller.h: parameters, checks and the controller\<close>

subsection \<open>The parameter handler\<close>

text \<open>
  \<^verbatim>\<open>ParameterHandler\<close> is a template argument. The checks are compiled against
  \<^verbatim>\<open>MockParameterHandler\<close> of the tests and of the example program:
  \<^verbatim>\<open>contains\<close> is \<^verbatim>\<open>parameters.find(name) != parameters.end()\<close>,
  \<^verbatim>\<open>get<T>\<close> is \<^verbatim>\<open>std::any_cast<T>(parameters.at(name))\<close> and
  \<^verbatim>\<open>insert\<close> is \<^verbatim>\<open>parameters[name] = value\<close>.
\<close>

type_synonym ('t, 'o) parameter_handler = "string \<rightharpoonup> ('t, 'o) any"

definition contains :: "('t, 'o) parameter_handler \<Rightarrow> string \<Rightarrow> bool" where
  "contains parameters name = (parameters name \<noteq> None)"

definition get_param :: "('t, 'o) parameter_handler \<Rightarrow> string \<Rightarrow> exn + 't" where
  "get_param parameters name =
     (case parameters name of None \<Rightarrow> Inl out_of_range | Some a \<Rightarrow> any_cast a)"

definition insert_param ::
  "('t, 'o) parameter_handler \<Rightarrow> string \<Rightarrow> 't \<Rightarrow> ('t, 'o) parameter_handler" where
  "insert_param parameters name v = parameters(name \<mapsto> make_any v)"

subsection \<open>Checks and input\_parameter\<close>

text \<open>
  The four classes derived from \<^verbatim>\<open>input_parameter_check_base<T, ...>\<close>, with their
  data members: \<^verbatim>\<open>check_range\<close> holds \<^verbatim>\<open>m_low\<close> and \<^verbatim>\<open>m_high\<close>,
  \<^verbatim>\<open>set_default\<close> holds \<^verbatim>\<open>m_value\<close>. The reference \<^verbatim>\<open>m_para\<close> to the owning
  parameter is only read for its name, which \<open>check\<close> takes as an argument. The type
  \<open>T\<close> is compared with \<^verbatim>\<open><\<close> and \<^verbatim>\<open>>\<close>, here a linear order.
\<close>

datatype 't input_parameter_check =
  is_required
| check_range 't 't
| set_default 't
| check_data_type

record 't input_parameter =
  m_name :: string
  m_checks :: "'t input_parameter_check list"

definition new_input_parameter :: "string \<Rightarrow> 't input_parameter" where
  "new_input_parameter name = \<lparr>m_name = name, m_checks = []\<rparr>"

definition add :: "'t input_parameter \<Rightarrow> 't input_parameter_check \<Rightarrow> 't input_parameter" where
  "add p c = p\<lparr>m_checks := m_checks p @ [c]\<rparr>"

text \<open>
  \<^verbatim>\<open>check(ParameterHandler &input)\<close> of each class. The result is the exception thrown,
  if any, and the handler after the call.
\<close>

fun check ::
  "string \<Rightarrow> ('t::linorder) input_parameter_check \<Rightarrow> ('t, 'o) parameter_handler
     \<Rightarrow> exn option \<times> ('t, 'o) parameter_handler" where
  "check name is_required input =
     (if \<not> contains input name
      then (Some (invalid_argument (''Parameter '' @ name @ '' is missing!'')), input)
      else (None, input))"
| "check name (check_range m_low m_high) input =
     (if contains input name
      then (case get_param input name of
              Inl e \<Rightarrow> (Some e, input)
            | Inr v \<Rightarrow>
                if v < m_low \<or> v > m_high
                then (Some (invalid_argument (''Parameter '' @ name @ '' out of range'')), input)
                else (None, input))
      else (None, input))"
| "check name (set_default m_value) input =
     (if \<not> contains input name
      then (None, insert_param input name m_value)
      else (None, input))"
| "check name check_data_type input =
     (if contains input name
      then (case get_param input name of
              Inl e \<Rightarrow> (Some e, input)
            | Inr v \<Rightarrow> (None, input))
      else (None, input))"

text \<open>
  \<^verbatim>\<open>input_parameter::check_parameter\<close>:
  \<^verbatim>\<open>for (auto &check : m_checks) check->check(input);\<close>
\<close>

fun run_checks ::
  "string \<Rightarrow> ('t::linorder) input_parameter_check list \<Rightarrow> ('t, 'o) parameter_handler
     \<Rightarrow> exn option \<times> ('t, 'o) parameter_handler" where
  "run_checks name [] input = (None, input)"
| "run_checks name (c # cs) input =
     (case check name c input of
        (Some e, input') \<Rightarrow> (Some e, input')
      | (None, input') \<Rightarrow> run_checks name cs input')"

definition check_parameter ::
  "('t::linorder) input_parameter \<Rightarrow> ('t, 'o) parameter_handler
     \<Rightarrow> exn option \<times> ('t, 'o) parameter_handler" where
  "check_parameter p input = run_checks (m_name p) (m_checks p) input"

subsection \<open>The controller\<close>

text \<open>
  \<^verbatim>\<open>input_parameter_controller::m_data\<close> is an unordered map from names to owned
  parameters. The move assignment iterates over the source's map, so the maps are
  association lists here (with distinct keys, in some iteration order), and
  \<^verbatim>\<open>m_data[key] = std::move(check)\<close> is \<open>AList.update\<close>. The parameters themselves
  are only moved; their type is a parameter.
\<close>

type_synonym 'p input_parameter_controller = "(string \<times> 'p) list"

definition move_assign ::
  "'p input_parameter_controller \<Rightarrow> 'p input_parameter_controller
     \<Rightarrow> 'p input_parameter_controller" where
  "move_assign this data =
     (if this = [] then data
      else fold (\<lambda>(key, chk) m. AList.update key chk m) data this)"

section \<open>Example objects\<close>

text \<open>
  The objects of \<^verbatim>\<open>tests/query_map/main.cpp\<close> (test \<^verbatim>\<open>QueryExecution\<close>: the value 55
  under the keys 1 and \<^verbatim>\<open>"key3"\<close>) with three queries registered in a row, the second one
  on a path that does not exist. A callback adds one to the integer it is handed and
  appends its number to a log.
\<close>

type_synonym example_any = "(int, string) any"

definition bump_and_log :: "nat \<Rightarrow> (example_any, nat list) query_fun_sig" where
  "bump_and_log i v w = (None, (case v of holds n \<Rightarrow> holds (n + 1) | _ \<Rightarrow> v), w @ [i])"

definition example_store :: "(example_any, nat list) query_map2" where
  "example_store = snd (set2 empty2 (55::int) make_any (key_int 1) (key_string ''key3''))"

definition example_queries :: "(example_any, nat list) query_map2" where
  "example_queries =
     snd (query2
       (snd (query2
         (snd (query2 example_store (bump_and_log 1) (key_int 1) (key_string ''key3'')))
         (bump_and_log 2) (key_int 9) (key_string ''missing'')))
       (bump_and_log 3) (key_int 1) (key_string ''key3''))"

definition example_store1 :: "(example_any, nat list) query_map1" where
  "example_store1 = snd (set1 empty1 (7::int) make_any (key_int 3))"

text \<open>
  The same three registrations on the store of one key (7 under the key 3; the key 4 is
  absent), and on each store two queries whose paths both exist.
\<close>

definition example_queries1 :: "(example_any, nat list) query_map1" where
  "example_queries1 =
     snd (query1
       (snd (query1
         (snd (query1 example_store1 (bump_and_log 1) (key_int 3)))
         (bump_and_log 2) (key_int 4)))
       (bump_and_log 3) (key_int 3))"

definition example_ordered :: "(example_any, nat list) query_map2" where
  "example_ordered =
     snd (query2
       (snd (query2 example_store (bump_and_log 1) (key_int 1) (key_string ''key3'')))
       (bump_and_log 3) (key_int 1) (key_string ''key3''))"

definition example_ordered1 :: "(example_any, nat list) query_map1" where
  "example_ordered1 =
     snd (query1
       (snd (query1 example_store1 (bump_and_log 1) (key_int 3)))
       (bump_and_log 3) (key_int 3))"

text \<open>
  The parameter of test \<^verbatim>\<open>TestMultipleChecks_Fail\<close> of
  \<^verbatim>\<open>tests/parameter_handler/main.cpp\<close> and handlers of the tests.
\<close>

definition multi_param :: "int input_parameter" where
  "multi_param =
     add (add (add (new_input_parameter ''multi_param'') is_required) (check_range 0 100))
       (set_default 50)"

definition example_handler :: "int \<Rightarrow> (int, string) parameter_handler" where
  "example_handler v = insert_param (insert_param Map.empty ''other'' 7) ''multi_param'' v"

section \<open>Helper lemmas\<close>

lemma get1_set1 [simp]: "get1 (snd (set1 qm d f k0)) k0 = Inr (f d)"
  by (simp add: get1_def get_list_first1_def set1_def get_list_first_def
      get_list_impl_none_def set_imp_last_def)

lemma get2_set2 [simp]: "get2 (snd (set2 qm d f k0 k1)) k0 k1 = Inr (f d)"
  by (simp add: get2_def set2_def get_list_first_def get_list_impl_last_def set_imp_def
      set_imp_last_def)

lemma set1_set1 [simp]: "snd (set1 (snd (set1 qm a f k0)) b g k0) = snd (set1 qm b g k0)"
  by (simp add: set1_def set_imp_last_def)

lemma set2_set2 [simp]:
  "snd (set2 (snd (set2 qm a f k0 k1)) b g k0 k1) = snd (set2 qm b g k0 k1)"
  by (simp add: set2_def set_imp_def set_imp_last_def)

lemma to_string_examples:
  "to_string 1 = ''1''" "to_string 9 = ''9''" "to_string 4 = ''4''" "to_string (- 42) = ''-42''"
  by (simp_all add: to_string_def digits.simps)

lemma run_queries_append:
  "run_queries resolve assign (qs1 @ qs2) data w =
     (case run_queries resolve assign qs1 data w of
        (None, data', w') \<Rightarrow> run_queries resolve assign qs2 data' w'
      | (Some e, data', w') \<Rightarrow> (Some e, data', w'))"
  by (induction qs1 arbitrary: data w) (auto split: sum.splits option.splits prod.splits)

lemma map_add_upd_left:
  "m2 k = None \<Longrightarrow> m1(k \<mapsto> v) ++ m2 = (m1 ++ m2)(k \<mapsto> v)"
  by (rule ext) (auto simp: map_add_def split: option.splits)

lemma map_of_fold_update:
  "distinct (map fst data) \<Longrightarrow>
   map_of (fold (\<lambda>(key, chk) m. AList.update key chk m) data this) = map_of this ++ map_of data"
proof (induction data arbitrary: this)
  case Nil
  then show ?case by simp
next
  case (Cons kv data)
  obtain k v where kv: "kv = (k, v)" by (cases kv)
  from Cons.prems kv have notin: "map_of data k = None" and dist: "distinct (map fst data)"
    by (auto simp: map_of_eq_None_iff)
  have "map_of (fold (\<lambda>(key, chk) m. AList.update key chk m) (kv # data) this)
        = map_of (AList.update k v this) ++ map_of data"
    using Cons.IH [OF dist, of "AList.update k v this"] by (simp add: kv)
  also have "\<dots> = (map_of this ++ map_of data)(k \<mapsto> v)"
    using notin by (simp add: update_conv' map_add_upd_left)
  also have "\<dots> = map_of this ++ map_of (kv # data)"
    by (simp add: kv)
  finally show ?case .
qed

lemma distinct_fold_update:
  "distinct (map fst this) \<Longrightarrow>
   distinct (map fst (fold (\<lambda>(key, chk) m. AList.update key chk m) data this))"
  by (induction data arbitrary: this) (auto simp: distinct_update)

lemma run_checks_append:
  "run_checks name (cs1 @ cs2) h =
     (case run_checks name cs1 h of
        (None, h') \<Rightarrow> run_checks name cs2 h'
      | (Some e, h') \<Rightarrow> (Some e, h'))"
  by (induction cs1 arbitrary: h) (auto split: prod.splits option.splits)

lemma check_frame: "k \<noteq> name \<Longrightarrow> snd (check name c h) k = h k"
  by (cases c) (auto simp: insert_param_def split: sum.splits)

lemma run_checks_frame: "k \<noteq> name \<Longrightarrow> snd (run_checks name cs h) k = h k"
proof (induction cs arbitrary: h)
  case Nil
  then show ?case by simp
next
  case (Cons c cs)
  show ?case
  proof (cases "check name c h")
    case (Pair r h')
    with check_frame [OF Cons.prems, of c h] have "h' k = h k" by simp
    with Pair Cons show ?thesis by (cases r) auto
  qed
qed

section \<open>The multi-key store\<close>

text \<open>
  C1. Round trip through the store: after \<^verbatim>\<open>set(v, make_any, k...)\<close>, casting what
  \<^verbatim>\<open>get(k...)\<close> returns back to the type of \<open>v\<close> yields \<open>v\<close>, for every store,
  every key path and every value of every type, for stores of one key and of two keys
  (the arities for which \<^verbatim>\<open>get\<close> compiles).
\<close>

theorem set_get_round_trip:
  "cast_result (get1 (snd (set1 qm1 v make_any k)) k) = Inr v \<and>
   cast_result (get2 (snd (set2 qm2 v make_any k0 k1)) k0 k1) = Inr v"
  by (simp add: cast_result_def make_any_def)

text \<open>
  C2, as the code has it. \<^verbatim>\<open>get\<close> fails the first time a key along the path is absent,
  the final one included, with \<^verbatim>\<open>std::invalid_argument\<close> and the message
  \<^verbatim>\<open>key <text> not found\<close>, where the text is that of the first absent key: the key itself
  when it is a string, its \<^verbatim>\<open>std::to_string\<close> otherwise. When the whole path is bound,
  \<^verbatim>\<open>get\<close> returns the stored value. The exception carries the text of the key and
  nothing else: no position.
\<close>

theorem get_missing_key:
  "(m_data qm1 k = None \<longrightarrow>
      get1 qm1 k = Inl (invalid_argument (''key '' @ str k @ '' not found''))) \<and>
   (m_data qm1 k = Some v \<longrightarrow> get1 qm1 k = Inr v) \<and>
   (m_data qm2 k0 = None \<longrightarrow>
      get2 qm2 k0 k1 = Inl (invalid_argument (''key '' @ str k0 @ '' not found''))) \<and>
   (m_data qm2 k0 = Some sub \<and> sub k1 = None \<longrightarrow>
      get2 qm2 k0 k1 = Inl (invalid_argument (''key '' @ str k1 @ '' not found''))) \<and>
   (m_data qm2 k0 = Some sub \<and> sub k1 = Some v \<longrightarrow> get2 qm2 k0 k1 = Inr v) \<and>
   str (key_string s) = s \<and> str (key_int i) = to_string i"
  by (simp add: get1_def get2_def get_list_first1_def get_list_first_def get_list_impl_none_def
      get_list_impl_last_def key_not_found_def)

text \<open>
  The three cases of a store of two keys, at the store of the test: the first key absent
  (test \<^verbatim>\<open>KeyNotFound\<close> looks \<^verbatim>\<open>(3, "nonexistent")\<close> up), the last key absent, the path
  bound; and the store of one key.
\<close>

theorem get_missing_key_witness:
  "get1 example_store1 (key_int 4) = Inl (invalid_argument ''key 4 not found'') \<and>
   get1 example_store1 (key_int 3) = Inr (holds 7) \<and>
   get2 example_store (key_int 9) (key_string ''nonexistent'')
     = Inl (invalid_argument ''key 9 not found'') \<and>
   get2 example_store (key_int 1) (key_string ''nonexistent'')
     = Inl (invalid_argument ''key nonexistent not found'') \<and>
   get2 example_store (key_int 1) (key_string ''key3'') = Inr (holds 55)"
  using
    get_missing_key [where ?qm1.0 = example_store1 and k = "key_int 4" and v = "holds 7"
      and ?qm2.0 = example_store and ?k0.0 = "key_int 9" and ?k1.0 = "key_string ''nonexistent''"
      and sub = Map.empty and s = "''x''" and i = 9]
    get_missing_key [where ?qm1.0 = example_store1 and k = "key_int 3" and v = "holds 7"
      and ?qm2.0 = example_store and ?k0.0 = "key_int 1" and ?k1.0 = "key_string ''nonexistent''"
      and sub = "[key_string ''key3'' \<mapsto> holds 55]" and s = "''x''" and i = 4]
    get_missing_key [where ?qm1.0 = example_store1 and k = "key_int 3" and v = "holds 55"
      and ?qm2.0 = example_store and ?k0.0 = "key_int 1" and ?k1.0 = "key_string ''key3''"
      and sub = "[key_string ''key3'' \<mapsto> holds 55]" and s = "''x''" and i = 1]
  by (simp add: example_store_def example_store1_def set1_def set2_def empty1_def empty2_def
      set_imp_def set_imp_last_def make_any_def to_string_examples)

text \<open>
  C2 as stated fails: the error does not tell which segment of the path failed. With the
  path \<^verbatim>\<open>("a", "a")\<close>, the empty store fails at position 0 and the store holding a value
  under \<^verbatim>\<open>("a", "b")\<close> fails at position 1, and both throw the same exception.
\<close>

theorem get_error_position_counterexample:
  "get2 (empty2 :: (example_any, nat list) query_map2) (key_string ''a'') (key_string ''a'')
     = Inl (invalid_argument ''key a not found'') \<and>
   get2 (snd (set2 (empty2 :: (example_any, nat list) query_map2) (1::int) make_any
           (key_string ''a'') (key_string ''b''))) (key_string ''a'') (key_string ''a'')
     = Inl (invalid_argument ''key a not found'') \<and>
   first_absent2 (m_data (empty2 :: (example_any, nat list) query_map2))
       (key_string ''a'') (key_string ''a'')
     = Some (0, key_string ''a'') \<and>
   first_absent2
       (m_data (snd (set2 (empty2 :: (example_any, nat list) query_map2) (1::int) make_any
           (key_string ''a'') (key_string ''b''))))
       (key_string ''a'') (key_string ''a'')
     = Some (1, key_string ''a'')"
  by (simp add: get2_def get_list_first_def get_list_impl_last_def key_not_found_def
      set2_def empty2_def set_imp_def set_imp_last_def first_absent2_def)

text \<open>
  C3. Last write wins and \<^verbatim>\<open>set\<close> never fails: \<^verbatim>\<open>set\<close> is a total function with no
  error result; after \<^verbatim>\<open>set(k..., a); set(k..., b)\<close> on any store, \<^verbatim>\<open>get(k...)\<close> returns
  \<open>b\<close>, and the store is the one a single \<^verbatim>\<open>set(k..., b)\<close> leaves, so the path holds one
  entry. The intermediate map of a store of two keys exists after \<^verbatim>\<open>set\<close>, whether
  or not it did before.
\<close>

theorem set_last_write_wins:
  "get1 (snd (set1 (snd (set1 qm1 a f k)) b g k)) k = Inr (g b) \<and>
   snd (set1 (snd (set1 qm1 a f k)) b g k) = snd (set1 qm1 b g k) \<and>
   get2 (snd (set2 (snd (set2 qm2 a f k0 k1)) b g k0 k1)) k0 k1 = Inr (g b) \<and>
   snd (set2 (snd (set2 qm2 a f k0 k1)) b g k0 k1) = snd (set2 qm2 b g k0 k1) \<and>
   m_data (snd (set2 qm2 b g k0 k1)) k0 \<noteq> None \<and>
   m_data (snd (set2 empty2 b g k0 k1)) k0 = Some [k1 \<mapsto> g b]"
proof -
  have created: "m_data (snd (set2 qm2 b g k0 k1)) k0 \<noteq> None"
    by (simp add: set2_def set_imp_def)
  have from_empty: "m_data (snd (set2 empty2 b g k0 k1)) k0 = Some [k1 \<mapsto> g b]"
    by (simp add: set2_def set_imp_def set_imp_last_def empty2_def)
  from created from_empty show ?thesis by simp
qed

text \<open>
  C4. \<^verbatim>\<open>final_queries\<close> runs the registered queries in registration order and stops at
  the first failure. With no query registered it returns at once and changes nothing. The
  query registered last runs after all the earlier ones, on the store and the world they
  leave, and only when none of them threw; its path is resolved as \<^verbatim>\<open>get\<close> resolves
  it, and what its callback assigns to the referenced value is what \<^verbatim>\<open>get\<close> returns on
  that path afterwards, every other path keeping what it had. When the queries before the
  k-th one complete and the path of the k-th one does not resolve, \<^verbatim>\<open>final_queries\<close>
  throws the exception of \<^verbatim>\<open>get\<close>, the store and the world are the ones the queries
  before it left, and the queries after it have no part in the result. For stores of two
  keys and of one key. The first two statements of each arity determine
  \<^verbatim>\<open>final_queries\<close> on every list of registrations.
\<close>

theorem final_queries_order_fail_fast:
  "final_queries2 (qm2\<lparr>m_queries := []\<rparr>) w = (None, qm2\<lparr>m_queries := []\<rparr>, w) \<and>
   final_queries2 (snd (query2 qm2 func k0 k1)) w =
     (case final_queries2 qm2 w of
        (Some e, qm', w') \<Rightarrow> (Some e, snd (query2 qm' func k0 k1), w')
      | (None, qm', w') \<Rightarrow>
          (case get2 qm' k0 k1 of
             Inl e \<Rightarrow> (Some e, snd (query2 qm' func k0 k1), w')
           | Inr v \<Rightarrow>
               (case func v w' of
                  (r, v', w'') \<Rightarrow>
                    (r, snd (query2 (qm'\<lparr>m_data := assign2 (m_data qm') (k0, k1) v'\<rparr>)
                              func k0 k1), w'')))) \<and>
   (m_queries qm2 = pre @ (func, (k0, k1)) # post \<and>
    final_queries2 (qm2\<lparr>m_queries := pre\<rparr>) w = (None, qm2', w2) \<and>
    get2 qm2' k0 k1 = Inl err \<longrightarrow>
      final_queries2 qm2 w = (Some err, qm2\<lparr>m_data := m_data qm2'\<rparr>, w2)) \<and>
   (get2 qm2 k0 k1 = Inr val \<longrightarrow>
      get2 (qm2\<lparr>m_data := assign2 (m_data qm2) (k0, k1) val'\<rparr>) k0 k1 = Inr val') \<and>
   ((j0, j1) \<noteq> (k0, k1) \<longrightarrow>
      get2 (qm2\<lparr>m_data := assign2 (m_data qm2) (k0, k1) val'\<rparr>) j0 j1 = get2 qm2 j0 j1) \<and>
   final_queries1 (qm1\<lparr>m_queries := []\<rparr>) w = (None, qm1\<lparr>m_queries := []\<rparr>, w) \<and>
   final_queries1 (snd (query1 qm1 func1 k)) w =
     (case final_queries1 qm1 w of
        (Some e, qm', w') \<Rightarrow> (Some e, snd (query1 qm' func1 k), w')
      | (None, qm', w') \<Rightarrow>
          (case get1 qm' k of
             Inl e \<Rightarrow> (Some e, snd (query1 qm' func1 k), w')
           | Inr v \<Rightarrow>
               (case func1 v w' of
                  (r, v', w'') \<Rightarrow>
                    (r, snd (query1 (qm'\<lparr>m_data := assign1 (m_data qm') k v'\<rparr>) func1 k),
                     w'')))) \<and>
   (m_queries qm1 = pre1 @ (func1, k) # post1 \<and>
    final_queries1 (qm1\<lparr>m_queries := pre1\<rparr>) w = (None, qm1', w1) \<and>
    get1 qm1' k = Inl err \<longrightarrow>
      final_queries1 qm1 w = (Some err, qm1\<lparr>m_data := m_data qm1'\<rparr>, w1)) \<and>
   (get1 qm1 k = Inr val1 \<longrightarrow>
      get1 (qm1\<lparr>m_data := assign1 (m_data qm1) k val1'\<rparr>) k = Inr val1') \<and>
   (j \<noteq> k \<longrightarrow>
      get1 (qm1\<lparr>m_data := assign1 (m_data qm1) k val1'\<rparr>) j = get1 qm1 j)"
proof -
  have base2: "final_queries2 (qm2\<lparr>m_queries := []\<rparr>) w = (None, qm2\<lparr>m_queries := []\<rparr>, w)"
    by (simp add: final_queries2_def)
  have seq2: "final_queries2 (snd (query2 qm2 func k0 k1)) w =
     (case final_queries2 qm2 w of
        (Some e, qm', w') \<Rightarrow> (Some e, snd (query2 qm' func k0 k1), w')
      | (None, qm', w') \<Rightarrow>
          (case get2 qm' k0 k1 of
             Inl e \<Rightarrow> (Some e, snd (query2 qm' func k0 k1), w')
           | Inr v \<Rightarrow>
               (case func v w' of
                  (r, v', w'') \<Rightarrow>
                    (r, snd (query2 (qm'\<lparr>m_data := assign2 (m_data qm') (k0, k1) v'\<rparr>)
                              func k0 k1), w''))))"
    by (auto simp: final_queries2_def query2_def run_queries_append get2_def
        split: prod.splits option.splits sum.splits)
  have fail2: "m_queries qm2 = pre @ (func, (k0, k1)) # post \<and>
    final_queries2 (qm2\<lparr>m_queries := pre\<rparr>) w = (None, qm2', w2) \<and>
    get2 qm2' k0 k1 = Inl err \<longrightarrow>
      final_queries2 qm2 w = (Some err, qm2\<lparr>m_data := m_data qm2'\<rparr>, w2)"
    by (auto simp: final_queries2_def run_queries_append get2_def
        split: prod.splits option.splits sum.splits)
  have read2: "get2 qm2 k0 k1 = Inr val \<longrightarrow>
      get2 (qm2\<lparr>m_data := assign2 (m_data qm2) (k0, k1) val'\<rparr>) k0 k1 = Inr val'"
    by (auto simp: get2_def get_list_first_def get_list_impl_last_def
        split: option.splits)
  have frame2: "(j0, j1) \<noteq> (k0, k1) \<longrightarrow>
      get2 (qm2\<lparr>m_data := assign2 (m_data qm2) (k0, k1) val'\<rparr>) j0 j1 = get2 qm2 j0 j1"
    by (auto simp: get2_def get_list_first_def get_list_impl_last_def
        split: option.splits)
  have base1: "final_queries1 (qm1\<lparr>m_queries := []\<rparr>) w = (None, qm1\<lparr>m_queries := []\<rparr>, w)"
    by (simp add: final_queries1_def)
  have seq1: "final_queries1 (snd (query1 qm1 func1 k)) w =
     (case final_queries1 qm1 w of
        (Some e, qm', w') \<Rightarrow> (Some e, snd (query1 qm' func1 k), w')
      | (None, qm', w') \<Rightarrow>
          (case get1 qm' k of
             Inl e \<Rightarrow> (Some e, snd (query1 qm' func1 k), w')
           | Inr v \<Rightarrow>
               (case func1 v w' of
                  (r, v', w'') \<Rightarrow>
                    (r, snd (query1 (qm'\<lparr>m_data := assign1 (m_data qm') k v'\<rparr>) func1 k),
                     w''))))"
    by (auto simp: final_queries1_def query1_def run_queries_append get1_def
        split: prod.splits option.splits sum.splits)
  have fail1: "m_queries qm1 = pre1 @ (func1, k) # post1 \<and>
    final_queries1 (qm1\<lparr>m_queries := pre1\<rparr>) w = (None, qm1', w1) \<and>
    get1 qm1' k = Inl err \<longrightarrow>
      final_queries1 qm1 w = (Some err, qm1\<lparr>m_data := m_data qm1'\<rparr>, w1)"
    by (auto simp: final_queries1_def run_queries_append get1_def
        split: prod.splits option.splits sum.splits)
  have read1: "get1 qm1 k = Inr val1 \<longrightarrow>
      get1 (qm1\<lparr>m_data := assign1 (m_data qm1) k val1'\<rparr>) k = Inr val1'"
    by (simp add: get1_def get_list_first1_def get_list_first_def get_list_impl_none_def
        assign1_def)
  have frame1: "j \<noteq> k \<longrightarrow>
      get1 (qm1\<lparr>m_data := assign1 (m_data qm1) k val1'\<rparr>) j = get1 qm1 j"
    by (simp add: get1_def get_list_first1_def get_list_first_def get_list_impl_none_def
        assign1_def)
  from base2 seq2 fail2 read2 frame2 base1 seq1 fail1 read1 frame1 show ?thesis by blast
qed

text \<open>
  The examples. Three queries registered in a row, the second on an absent path: the
  first callback has run (the log holds 1, the stored value went up by one), the
  exception is that of the second path, the third callback has not run; on the store of
  two keys and on the store of one key. Two queries on an existing path: both callbacks
  have run, in registration order. No query: nothing happens.
\<close>

theorem final_queries_order_fail_fast_witness:
  "fst (final_queries2 example_queries []) = Some (invalid_argument ''key 9 not found'') \<and>
   snd (snd (final_queries2 example_queries [])) = [1] \<and>
   get2 (fst (snd (final_queries2 example_queries []))) (key_int 1) (key_string ''key3'')
     = Inr (holds 56) \<and>
   fst (final_queries1 example_queries1 []) = Some (invalid_argument ''key 4 not found'') \<and>
   snd (snd (final_queries1 example_queries1 [])) = [1] \<and>
   get1 (fst (snd (final_queries1 example_queries1 []))) (key_int 3) = Inr (holds 8) \<and>
   fst (final_queries2 example_ordered []) = None \<and>
   snd (snd (final_queries2 example_ordered [])) = [1, 3] \<and>
   get2 (fst (snd (final_queries2 example_ordered []))) (key_int 1) (key_string ''key3'')
     = Inr (holds 57) \<and>
   fst (final_queries1 example_ordered1 []) = None \<and>
   snd (snd (final_queries1 example_ordered1 [])) = [1, 3] \<and>
   get1 (fst (snd (final_queries1 example_ordered1 []))) (key_int 3) = Inr (holds 9) \<and>
   final_queries2 example_store [] = (None, example_store, []) \<and>
   final_queries1 example_store1 [] = (None, example_store1, []) \<and>
   get2 (example_store\<lparr>m_data :=
           assign2 (m_data example_store) (key_int 1, key_string ''key3'') (holds 56)\<rparr>)
       (key_int 1) (key_string ''key3'') = Inr (holds 56) \<and>
   get1 (example_store1\<lparr>m_data := assign1 (m_data example_store1) (key_int 3) (holds 8)\<rparr>)
       (key_int 3) = Inr (holds 8)"
  using
    final_queries_order_fail_fast
    [where ?qm2.0 = example_queries
      and pre = "[(bump_and_log 1, (key_int 1, key_string ''key3''))]"
      and func = "bump_and_log 2" and ?k0.0 = "key_int 9" and ?k1.0 = "key_string ''missing''"
      and post = "[(bump_and_log 3, (key_int 1, key_string ''key3''))]"
      and w = "[]"
      and ?qm2' = "fst (snd (final_queries2
            (example_queries\<lparr>m_queries := [(bump_and_log 1, (key_int 1, key_string ''key3''))]\<rparr>)
            []))"
      and ?w2.0 = "[1]"
      and err = "invalid_argument ''key 9 not found''"
      and val = "holds 55" and val' = "holds 56"
      and ?j0.0 = "key_int 1" and ?j1.0 = "key_string ''key3''"
      and ?qm1.0 = example_store1
      and ?pre1.0 = "[]" and ?func1.0 = "bump_and_log 1" and k = "key_int 3" and ?post1.0 = "[]"
      and ?qm1' = example_store1 and ?w1.0 = "[]"
      and ?val1.0 = "holds 7" and ?val1' = "holds 8" and j = "key_int 4"]
    final_queries_order_fail_fast
    [where ?qm2.0 = example_store
      and pre = "[]"
      and func = "bump_and_log 1" and ?k0.0 = "key_int 1" and ?k1.0 = "key_string ''key3''"
      and post = "[]"
      and w = "[]"
      and ?qm2' = example_store
      and ?w2.0 = "[]"
      and err = "invalid_argument ''key 4 not found''"
      and val = "holds 55" and val' = "holds 56"
      and ?j0.0 = "key_int 9" and ?j1.0 = "key_string ''missing''"
      and ?qm1.0 = example_queries1
      and ?pre1.0 = "[(bump_and_log 1, key_int 3)]"
      and ?func1.0 = "bump_and_log 2" and k = "key_int 4"
      and ?post1.0 = "[(bump_and_log 3, key_int 3)]"
      and ?qm1' = "fst (snd (final_queries1
            (example_queries1\<lparr>m_queries := [(bump_and_log 1, key_int 3)]\<rparr>) []))"
      and ?w1.0 = "[1]"
      and ?val1.0 = "holds 7" and ?val1' = "holds 8" and j = "key_int 3"]
  by (simp add: example_queries_def example_queries1_def example_ordered_def
      example_ordered1_def example_store_def example_store1_def query2_def query1_def
      set2_def set1_def empty2_def empty1_def set_imp_def set_imp_last_def make_any_def
      final_queries2_def final_queries1_def get_list_first_def get_list_first1_def
      get_list_impl_last_def get_list_impl_none_def get2_def get1_def key_not_found_def
      assign1_def bump_and_log_def to_string_examples)

text \<open>
  C9, as the code has it. \<^verbatim>\<open>set\<close> is declared \<^verbatim>\<open>void\<close>: it returns no value, and the
  value it stored is the one a following \<^verbatim>\<open>get\<close> on the same key path returns.
\<close>

theorem set_returns_void:
  "fst (set1 qm1 d f k) = () \<and> get1 (snd (set1 qm1 d f k)) k = Inr (f d) \<and>
   fst (set2 qm2 d f k0 k1) = () \<and> get2 (snd (set2 qm2 d f k0 k1)) k0 k1 = Inr (f d)"
  by simp

text \<open>
  C9 as stated fails: what \<^verbatim>\<open>set\<close> returns does not refer to the stored value. Two runs
  whose last calls store different values under different paths (42 under
  \<^verbatim>\<open>(1, "key1")\<close>, 100 under \<^verbatim>\<open>(2, "key2")\<close>, as in the tests) end with the same returned
  value and the same store.
\<close>

theorem set_returns_reference_counterexample:
  "set2 (snd (set2 (empty2 :: (example_any, nat list) query_map2) (42::int) make_any
            (key_int 1) (key_string ''key1'')))
        (100::int) make_any (key_int 2) (key_string ''key2'')
   = set2 (snd (set2 (empty2 :: (example_any, nat list) query_map2) (100::int) make_any
            (key_int 2) (key_string ''key2'')))
        (42::int) make_any (key_int 1) (key_string ''key1'') \<and>
   (make_any (100::int) :: example_any) \<noteq> make_any 42"
  by (simp add: set2_def empty2_def set_imp_def set_imp_last_def make_any_def fun_upd_twist)

section \<open>The controller and the checks\<close>

text \<open>
  C5. Move assignment of the controller merges into a non-empty destination and replaces
  an empty one. When the destination is not empty, every key of the source carries the
  source's parameter afterwards and every other key carries what the destination had
  (the keys of an unordered map are distinct). When the destination is empty, its map
  becomes the source's map as a whole. Distinct keys stay distinct.
\<close>

theorem controller_move_assign:
  "(this \<noteq> [] \<and> distinct (map fst data) \<longrightarrow>
      map_of (move_assign this data) key =
        (case map_of data key of Some p \<Rightarrow> Some p | None \<Rightarrow> map_of this key)) \<and>
   (this = [] \<longrightarrow> move_assign this data = data) \<and>
   (distinct (map fst this) \<and> distinct (map fst data) \<longrightarrow>
      distinct (map fst (move_assign this data)))"
  by (simp add: move_assign_def map_of_fold_update map_add_def distinct_fold_update)

text \<open>
  A destination with the keys a and b, a source with the keys b and c: b is overwritten,
  a is kept, c is added. An empty destination takes the source's map.
\<close>

theorem controller_move_assign_witness:
  "move_assign [(''a'', 1::nat), (''b'', 2)] [(''b'', 20), (''c'', 30)]
     = [(''a'', 1), (''b'', 20), (''c'', 30)] \<and>
   map_of (move_assign [(''a'', 1::nat), (''b'', 2)] [(''b'', 20), (''c'', 30)]) ''a'' = Some 1 \<and>
   map_of (move_assign [(''a'', 1::nat), (''b'', 2)] [(''b'', 20), (''c'', 30)]) ''b'' = Some 20 \<and>
   move_assign [] [(''b'', 20::nat), (''c'', 30)] = [(''b'', 20), (''c'', 30)]"
  using
    controller_move_assign [of "[(''a'', 1::nat), (''b'', 2)]" "[(''b'', 20), (''c'', 30)]" "''a''"]
    controller_move_assign [of "[(''a'', 1::nat), (''b'', 2)]" "[(''b'', 20), (''c'', 30)]" "''b''"]
    controller_move_assign [of "[]" "[(''b'', 20::nat), (''c'', 30)]" "''b''"]
  by (simp add: move_assign_def)

text \<open>
  C6. \<^verbatim>\<open>check_range(low, high)\<close> passes when the name is absent from the handler. When
  the handler holds a value of the parameter's type under the name, the check throws
  \<^verbatim>\<open>std::invalid_argument\<close> ("out of range") exactly when the value is below \<open>low\<close> or
  above \<open>high\<close>; so, for \<open>low \<le> high\<close>, a value equal to either bound passes. Over all
  handlers, the out-of-range exception is thrown exactly when such a value is stored (a
  value of another type makes the typed read throw \<^verbatim>\<open>std::bad_any_cast\<close> instead). In
  every case the handler is left as it was.
\<close>

theorem check_range_inclusive:
  "(\<not> contains h name \<longrightarrow> check name (check_range low high) h = (None, h)) \<and>
   (h name = Some (holds v) \<longrightarrow>
      check name (check_range low high) h =
        (if v < low \<or> v > high
         then Some (invalid_argument (''Parameter '' @ name @ '' out of range''))
         else None, h)) \<and>
   (h name = Some (holds v) \<and> low \<le> high \<and> (v = low \<or> v = high) \<longrightarrow>
      check name (check_range low high) h = (None, h)) \<and>
   (fst (check name (check_range low high) h)
      = Some (invalid_argument (''Parameter '' @ name @ '' out of range''))
    \<longleftrightarrow> (\<exists>x. h name = Some (holds x) \<and> (x < low \<or> x > high))) \<and>
   snd (check name (check_range low high) h) = h"
proof -
  have absent: "\<not> contains h name \<longrightarrow> check name (check_range low high) h = (None, h)"
    by simp
  have present: "h name = Some (holds v) \<longrightarrow>
      check name (check_range low high) h =
        (if v < low \<or> v > high
         then Some (invalid_argument (''Parameter '' @ name @ '' out of range''))
         else None, h)"
    by (auto simp: contains_def get_param_def)
  have bounds: "h name = Some (holds v) \<and> low \<le> high \<and> (v = low \<or> v = high) \<longrightarrow>
      check name (check_range low high) h = (None, h)"
    by (auto simp: contains_def get_param_def)
  have exactly: "fst (check name (check_range low high) h)
      = Some (invalid_argument (''Parameter '' @ name @ '' out of range''))
    \<longleftrightarrow> (\<exists>x. h name = Some (holds x) \<and> (x < low \<or> x > high))"
  proof (cases "h name")
    case None
    then show ?thesis by (simp add: contains_def)
  next
    case (Some a)
    then show ?thesis
      by (cases a) (auto simp: contains_def get_param_def)
  qed
  have frame: "snd (check name (check_range low high) h) = h"
    by (auto simp: contains_def get_param_def split: sum.splits option.splits)
  from absent present bounds exactly frame show ?thesis by blast
qed

text \<open>
  The range 0 to 100 of the tests: 150 is out of range, 100 and 0 pass, and so does a
  handler without the name.
\<close>

theorem check_range_inclusive_witness:
  "fst (check ''multi_param'' (check_range 0 100) (example_handler 150))
     = Some (invalid_argument ''Parameter multi_param out of range'') \<and>
   fst (check ''multi_param'' (check_range 0 100) (example_handler 100)) = None \<and>
   fst (check ''multi_param'' (check_range 0 100) (example_handler 0)) = None \<and>
   fst (check ''range_param'' (check_range 0 100) (example_handler 150)) = None \<and>
   snd (check ''multi_param'' (check_range 0 100) (example_handler 150)) = example_handler 150"
  using
    check_range_inclusive [of "example_handler 150" "''multi_param''" 0 100 150]
    check_range_inclusive [of "example_handler 100" "''multi_param''" 0 100 100]
    check_range_inclusive [of "example_handler 0" "''multi_param''" 0 100 0]
    check_range_inclusive [of "example_handler 150" "''range_param''" 0 100 150]
  by (simp add: example_handler_def insert_param_def make_any_def contains_def)

text \<open>
  C7. \<^verbatim>\<open>set_default(value)\<close> never throws; it inserts the value under the parameter's
  name when the name is absent and leaves the handler as it is when the name is present.
  Applying a default again, with the same or another value, changes nothing, and a value
  the user inserted is still there after the check.
\<close>

theorem set_default_never_overwrites:
  "check name (set_default d) h = (None, if contains h name then h else insert_param h name d) \<and>
   (contains h name \<longrightarrow> check name (set_default d) h = (None, h)) \<and>
   (\<not> contains h name \<longrightarrow> snd (check name (set_default d) h) = h(name \<mapsto> holds d)) \<and>
   check name (set_default d') (snd (check name (set_default d) h))
     = (None, snd (check name (set_default d) h)) \<and>
   get_param (snd (check name (set_default d) (insert_param h name user))) name = Inr user"
  by (auto simp: contains_def insert_param_def get_param_def make_any_def)

text \<open>
  Tests \<^verbatim>\<open>TestSetDefaultValue\<close> and \<^verbatim>\<open>TestSetDefaultValueNotNeeded\<close>: the default 99
  is read back from a handler that lacked the name, and 42 stays 42.
\<close>

theorem set_default_never_overwrites_witness:
  "get_param (snd (check ''default_param'' (set_default 99) (example_handler 42))) ''default_param''
     = Inr 99 \<and>
   check ''multi_param'' (set_default 99) (example_handler 42) = (None, example_handler 42) \<and>
   get_param (snd (check ''multi_param'' (set_default 99) (example_handler 42))) ''multi_param''
     = Inr 42"
  using
    set_default_never_overwrites [of "''default_param''" 99 "example_handler 42" 99 42]
    set_default_never_overwrites [of "''multi_param''" 99 "example_handler 42" 99 42]
  by (simp add: example_handler_def insert_param_def make_any_def contains_def get_param_def)

text \<open>
  C8. The checks of a parameter run in registration order and the first one that throws
  ends the chain. With \<^verbatim>\<open>is_required\<close> registered before \<^verbatim>\<open>check_range\<close> and the name
  absent from the handler, \<^verbatim>\<open>check_parameter\<close> throws the exception of
  \<^verbatim>\<open>is_required\<close> ("is missing!") whatever checks follow it. In general, when the checks
  before some check pass and that check throws, \<^verbatim>\<open>check_parameter\<close> throws its
  exception and the checks after it have no part in the result.
\<close>

theorem rule_chain_fail_fast:
  "(\<not> contains h name \<longrightarrow>
      check_parameter (add (add (new_input_parameter name) is_required) (check_range low high)) h
        = (Some (invalid_argument (''Parameter '' @ name @ '' is missing!'')), h)) \<and>
   (\<not> contains h (m_name p) \<and> m_checks p = is_required # rest \<longrightarrow>
      check_parameter p h
        = (Some (invalid_argument (''Parameter '' @ m_name p @ '' is missing!'')), h)) \<and>
   (m_checks p = pre @ c # post \<and> run_checks (m_name p) pre h = (None, h1) \<and>
    check (m_name p) c h1 = (Some e, h2) \<longrightarrow>
      check_parameter p h = (Some e, h2))"
  by (auto simp: check_parameter_def add_def new_input_parameter_def run_checks_append)

text \<open>
  Test \<^verbatim>\<open>TestMultipleChecks_Fail\<close>: the parameter with \<^verbatim>\<open>is_required\<close>,
  \<^verbatim>\<open>check_range(0, 100)\<close> and \<^verbatim>\<open>set_default(50)\<close>. On a handler without it, the first
  check throws and no default is inserted; on a handler holding 150 the second check
  throws.
\<close>

theorem rule_chain_fail_fast_witness:
  "check_parameter multi_param (Map.empty :: (int, string) parameter_handler)
     = (Some (invalid_argument ''Parameter multi_param is missing!''), Map.empty) \<and>
   check_parameter
       (add (add (new_input_parameter ''multi_param'') is_required) (check_range 0 100))
       (Map.empty :: (int, string) parameter_handler)
     = (Some (invalid_argument ''Parameter multi_param is missing!''), Map.empty) \<and>
   check_parameter multi_param (example_handler 150)
     = (Some (invalid_argument ''Parameter multi_param out of range''), example_handler 150)"
  using
    rule_chain_fail_fast [of "Map.empty :: (int, string) parameter_handler" "''multi_param''"
      0 100 multi_param "[check_range 0 100, set_default 50]" "[]" is_required
      "[check_range 0 100, set_default 50]" Map.empty
      "invalid_argument ''Parameter multi_param is missing!''" Map.empty]
    rule_chain_fail_fast [of "example_handler 150" "''range_param''"
      0 100 multi_param "[check_range 0 100, set_default 50]" "[is_required]" "check_range 0 100"
      "[set_default 50]" "example_handler 150"
      "invalid_argument ''Parameter multi_param out of range''" "example_handler 150"]
  by (simp add: multi_param_def add_def new_input_parameter_def example_handler_def
      insert_param_def make_any_def contains_def get_param_def)

text \<open>
  C10. Frame of the rule chain: whatever the checks of a parameter are and whether the
  chain passes or throws, \<^verbatim>\<open>check_parameter\<close> leaves every key of the handler other
  than the parameter's own name as it was, present or absent.
\<close>

theorem check_parameter_frame:
  "k \<noteq> m_name p \<longrightarrow> snd (check_parameter p h) k = h k"
  by (simp add: check_parameter_def run_checks_frame)

text \<open>
  A parameter whose default is inserted, and the same parameter when its chain throws:
  the other key of the handler keeps its value.
\<close>

theorem check_parameter_frame_witness:
  "snd (check_parameter (add (new_input_parameter ''default_param'') (set_default 99))
          (example_handler 150)) ''other'' = Some (holds 7) \<and>
   snd (check_parameter (add (new_input_parameter ''default_param'') (set_default 99))
          (example_handler 150)) ''default_param'' = Some (holds 99) \<and>
   snd (check_parameter multi_param (example_handler 150)) ''other'' = Some (holds 7)"
  using
    check_parameter_frame [of "''other''"
      "add (new_input_parameter ''default_param'') (set_default 99)" "example_handler 150"]
    check_parameter_frame [of "''other''" multi_param "example_handler 150"]
  by (simp add: multi_param_def add_def new_input_parameter_def example_handler_def
      insert_param_def make_any_def contains_def get_param_def check_parameter_def)

end
